theory Spec2Isabelle
  imports Complex_Main "HOL-Library.Sublist"
begin

section \<open>Shared vocabulary of the web components\<close>

text \<open>
  The components under \<^verbatim>\<open>apps/web/components\<close> are React function components. Each
  one is modelled by a record of its \<^verbatim>\<open>useState\<close> cells together with the part of
  the environment its handlers touch (requests, dialogs, timers, callbacks),
  and each handler by a function on that record. An \<^verbatim>\<open>async\<close> handler is cut at its
  \<^verbatim>\<open>await fetch(...)\<close>: one function for the part that runs up to the request, one for
  the part that runs when the response arrives.

  JavaScript strings are modelled as \<^typ>\<open>string\<close>; a character outside ASCII is
  written as the bytes of its UTF-8 encoding. Message and token counts, which the
  interfaces type as \<^verbatim>\<open>number\<close>, are natural numbers; percentages are reals.
\<close>

text \<open>
  What \<^verbatim>\<open>await fetch(url)\<close> followed by \<^verbatim>\<open>await response.json()\<close> can yield:
  \<^verbatim>\<open>fetch\<close> rejects (\<open>NetworkError\<close>), or it resolves to a response with its
  \<^verbatim>\<open>ok\<close> flag and a body; \<open>json\<close> is \<open>None\<close> when the body is not JSON, so that
  \<^verbatim>\<open>response.json()\<close> rejects.
\<close>

datatype 'a response = NetworkError | Response (ok: bool) (json: "'a option")

text \<open>What a \<^verbatim>\<open>try\<close> block can throw into its \<^verbatim>\<open>catch\<close>.\<close>

datatype exn = FetchFailed | SyntaxError | TypeError

text \<open>
  The requests the components pass to \<^verbatim>\<open>fetch\<close>, by method and path under
  \<^verbatim>\<open>/api/conversation/{projectId}\<close>; the first argument is the project identifier, the
  second the \<^verbatim>\<open>provider\<close> query parameter.
\<close>

datatype request =
    GET_providers string
  | GET_summary string string
  | GET_stats string
  | DELETE_history string string
  | POST_reset_all string

datatype dialog = Confirm string | Alert string

text \<open>
  What every component has: its \<^verbatim>\<open>projectId\<close> prop and its trace in the browser, i.e.
  the requests it has passed to \<^verbatim>\<open>fetch\<close>, the \<^verbatim>\<open>confirm\<close> and \<^verbatim>\<open>alert\<close> dialogs it
  has shown, the messages of its \<^verbatim>\<open>console.error\<close> calls and the delays of its
  \<^verbatim>\<open>setTimeout\<close> calls, each oldest first.
\<close>

record component =
  projectId :: string
  sent :: "request list"
  dialogs :: "dialog list"
  console :: "string list"
  timeouts :: "nat list"

text \<open>\<^verbatim>\<open>String(n)\<close> for a non-negative integer: its decimal digits.\<close>

definition digit :: "nat \<Rightarrow> char" where
  "digit d = ''0123456789'' ! d"

function toString :: "nat \<Rightarrow> string" where
  "toString n = (if n < 10 then [digit n] else toString (n div 10) @ [digit (n mod 10)])"
  by pat_completeness auto
termination
  by (relation "measure (\<lambda>n. n)") auto

declare toString.simps [simp del]

text \<open>\<^verbatim>\<open>Array.prototype.join(sep)\<close> on an array of strings.\<close>

fun join :: "string \<Rightarrow> string list \<Rightarrow> string" where
  "join sep [] = []"
| "join sep [x] = x"
| "join sep (x # y # ys) = x @ sep @ join sep (y # ys)"

section \<open>The providers endpoint\<close>

text \<open>
  \<^verbatim>\<open>GET /api/conversation/{projectId}/providers\<close> is read by ConversationHistoryTab and
  by SessionContinuityManager. ConversationHistoryTab declares the summary as
  \<^verbatim>\<open>ConversationSummary | null\<close>; a \<^verbatim>\<open>null\<close> summary is \<open>None\<close>. The object is kept
  as the list that \<^verbatim>\<open>Object.entries\<close> gives, in its order.
\<close>

record ConversationSummary =
  total_messages :: nat
  user_messages :: nat
  assistant_messages :: nat
  has_system_prompt :: bool
  provider :: string

record ProviderInfo =
  active :: bool
  summary :: "ConversationSummary option"

type_synonym ConversationState = "(string \<times> ProviderInfo) list"

section \<open>SessionContinuityManager.tsx: the restoration flow\<close>

record SessionInfo =
  hasActiveConversation :: bool
  providers :: "string list"
  lastActivity :: string
  messageCount :: nat

text \<open>The optional props: \<open>True\<close> when the parent passed the callback.\<close>

record SessionProps =
  onSessionRestore :: bool
  onConversationLoaded :: bool

datatype callback = SessionRestore SessionInfo | ConversationLoaded bool

text \<open>The state cells of the component and the calls it has made to its parent.\<close>

record session = component +
  sessionInfo :: "SessionInfo option"
  isLoading :: bool
  showStatus :: bool
  statusMessage :: string
  calls :: "callback list"

definition session_init :: "string \<Rightarrow> session" where
  "session_init pid = \<lparr>projectId = pid, sent = [], dialogs = [], console = [], timeouts = [],
     sessionInfo = None, isLoading = True, showStatus = False, statusMessage = [], calls = []\<rparr>"

text \<open>
  \<^verbatim>\<open>formatProviderName\<close>: the table, and the id itself for an id that is not in it.
  The names of qwen and doubao are Chinese (UTF-8 bytes).
\<close>

definition name_qwen :: string where
  "name_qwen = [CHR 0xE9, CHR 0x80, CHR 0x9A, CHR 0xE4, CHR 0xB9, CHR 0x89,
                CHR 0xE5, CHR 0x8D, CHR 0x83, CHR 0xE9, CHR 0x97, CHR 0xAE]"

definition name_doubao :: string where
  "name_doubao = [CHR 0xE8, CHR 0xB1, CHR 0x86, CHR 0xE5, CHR 0x8C, CHR 0x85]"

definition formatProviderName :: "string \<Rightarrow> string" where
  "formatProviderName p =
     (if p = ''deepseek'' then ''DeepSeek''
      else if p = ''qwen'' then name_qwen
      else if p = ''kimi'' then ''Kimi''
      else if p = ''doubao'' then name_doubao
      else p)"

text \<open>The fixed pieces of the status line and the separator of \<^verbatim>\<open>join\<close>.\<close>

definition sep_comma :: string where
  "sep_comma = [CHR 0xE3, CHR 0x80, CHR 0x81]"

definition msg_restored :: string where
  "msg_restored = [CHR 0xE5, CHR 0xB7, CHR 0xB2, CHR 0xE6, CHR 0x81, CHR 0xA2,
                   CHR 0xE5, CHR 0xA4, CHR 0x8D, CHR 0xE4, CHR 0xB8, CHR 0x8E]"

definition msg_history :: string where
  "msg_history = [CHR 0xE7, CHR 0x9A, CHR 0x84, CHR 0xE5, CHR 0xAF, CHR 0xB9,
                  CHR 0xE8, CHR 0xAF, CHR 0x9D, CHR 0xE5, CHR 0x8E, CHR 0x86,
                  CHR 0xE5, CHR 0x8F, CHR 0xB2]"

definition msg_messages :: string where
  "msg_messages = [CHR 0xE6, CHR 0x9D, CHR 0xA1, CHR 0xE6, CHR 0xB6, CHR 0x88,
                   CHR 0xE6, CHR 0x81, CHR 0xAF]"

definition restoredMessage :: "string \<Rightarrow> nat \<Rightarrow> string" where
  "restoredMessage providerNames count =
     msg_restored @ '' '' @ providerNames @ '' '' @ msg_history @ '' (''
       @ toString count @ msg_messages @ '')''"

text \<open>
  \<^verbatim>\<open>Object.entries(data).filter(([_, info]) => info.active && info.summary.total_messages > 0)
  .map(([provider, _]) => provider)\<close>. Reading \<^verbatim>\<open>total_messages\<close> of a \<^verbatim>\<open>null\<close> summary
  throws; \<^verbatim>\<open>&&\<close> does not read it when \<^verbatim>\<open>active\<close> is false.
\<close>

fun activeProviders :: "ConversationState \<Rightarrow> exn + string list" where
  "activeProviders [] = Inr []"
| "activeProviders ((p, info) # rest) =
     (if ProviderInfo.active info then
        (case ProviderInfo.summary info of
           None \<Rightarrow> Inl TypeError
         | Some sm \<Rightarrow>
             (case activeProviders rest of
                Inl e \<Rightarrow> Inl e
              | Inr ps \<Rightarrow> Inr (if ConversationSummary.total_messages sm > 0 then p # ps else ps)))
      else activeProviders rest)"

text \<open>
  \<^verbatim>\<open>Object.values(data).filter(info => info.active)
  .reduce((sum, info) => sum + info.summary.total_messages, 0)\<close>, as the loop over the
  filtered values with the running sum.
\<close>

fun sumMessages :: "nat \<Rightarrow> ProviderInfo list \<Rightarrow> exn + nat" where
  "sumMessages acc [] = Inr acc"
| "sumMessages acc (info # rest) =
     (case ProviderInfo.summary info of
        None \<Rightarrow> Inl TypeError
      | Some sm \<Rightarrow> sumMessages (acc + ConversationSummary.total_messages sm) rest)"

definition totalMessages :: "ConversationState \<Rightarrow> exn + nat" where
  "totalMessages data = sumMessages 0 (filter (\<lambda>info. ProviderInfo.active info) (map snd data))"

text \<open>
  \<^verbatim>\<open>checkAndRestoreConversations\<close> up to its \<^verbatim>\<open>await fetch\<close>, and
  \<open>checkAndRestoreConversations_resume\<close> from the response on. \<open>now\<close> is
  \<^verbatim>\<open>new Date().toISOString()\<close>. \<open>restore_try\<close> is the rest of the \<^verbatim>\<open>try\<close> block; it
  returns \<open>Inl\<close> where the source throws. A response that is not \<^verbatim>\<open>ok\<close> falls through
  the \<^verbatim>\<open>if (response.ok)\<close>, which has no \<^verbatim>\<open>else\<close>.
\<close>

definition checkAndRestoreConversations :: "session \<Rightarrow> session" where
  "checkAndRestoreConversations s =
     s\<lparr>isLoading := True, sent := sent s @ [GET_providers (projectId s)]\<rparr>"

definition restore_try ::
  "SessionProps \<Rightarrow> string \<Rightarrow> session \<Rightarrow> ConversationState response \<Rightarrow> exn + session" where
  "restore_try props now s r =
     (case r of
        NetworkError \<Rightarrow> Inl FetchFailed
      | Response okay body \<Rightarrow>
          if okay then
            (case body of
               None \<Rightarrow> Inl SyntaxError
             | Some data \<Rightarrow>
                 (case activeProviders data of
                    Inl e \<Rightarrow> Inl e
                  | Inr ps \<Rightarrow>
                      if length ps > 0 then
                        (case totalMessages data of
                           Inl e \<Rightarrow> Inl e
                         | Inr count \<Rightarrow>
                             let info = \<lparr>hasActiveConversation = True, providers = ps,
                                          lastActivity = now, messageCount = count\<rparr>
                             in Inr (s\<lparr>sessionInfo := Some info,
                                       calls := calls s
                                         @ (if onSessionRestore props then [SessionRestore info] else [])
                                         @ (if onConversationLoaded props
                                            then [ConversationLoaded True] else []),
                                       statusMessage := restoredMessage
                                         (join sep_comma (map formatProviderName ps)) count,
                                       showStatus := True,
                                       timeouts := timeouts s @ [3000]\<rparr>))
                      else
                        Inr (s\<lparr>calls := calls s
                               @ (if onConversationLoaded props
                                  then [ConversationLoaded False] else [])\<rparr>)))
          else Inr s)"

definition checkAndRestoreConversations_resume ::
  "SessionProps \<Rightarrow> string \<Rightarrow> session \<Rightarrow> ConversationState response \<Rightarrow> session" where
  "checkAndRestoreConversations_resume props now s r =
     (let s' = (case restore_try props now s r of
                  Inr s1 \<Rightarrow> s1
                | Inl e \<Rightarrow> s\<lparr>console := console s @ [''Failed to check existing conversations:''],
                             calls := calls s
                               @ (if onConversationLoaded props
                                  then [ConversationLoaded False] else [])\<rparr>)
      in s'\<lparr>isLoading := False\<rparr>)"

text \<open>The mount effect followed by the arrival of the response.\<close>

definition restoration_flow ::
  "SessionProps \<Rightarrow> string \<Rightarrow> string \<Rightarrow> ConversationState response \<Rightarrow> session" where
  "restoration_flow props pid now r =
     checkAndRestoreConversations_resume props now
       (checkAndRestoreConversations (session_init pid)) r"

text \<open>
  The render: the spinner while \<^verbatim>\<open>isLoading\<close>, else the banner under
  \<^verbatim>\<open>showStatus && sessionInfo\<close>.
\<close>

definition bannerShown :: "session \<Rightarrow> bool" where
  "bannerShown s = (\<not> session.isLoading s \<and> showStatus s \<and> sessionInfo s \<noteq> None)"

section \<open>ConversationHistoryTab.tsx: clearing one provider, clearing all\<close>

text \<open>
  The \<^verbatim>\<open>PROVIDERS\<close> table as the list of its \<^verbatim>\<open>(id, name)\<close> pairs; \<^verbatim>\<open>icon\<close> and
  \<^verbatim>\<open>color\<close> are used in the markup only. \<^verbatim>\<open>PROVIDERS.find(p => p.id === provider)?.name\<close>
  is \<open>map_of PROVIDERS provider\<close>, \<open>None\<close> for \<^verbatim>\<open>undefined\<close>.
\<close>

definition PROVIDERS :: "(string \<times> string) list" where
  "PROVIDERS = [(''deepseek'', ''DeepSeek''), (''qwen'', ''Qwen''),
                (''kimi'', ''Kimi''), (''doubao'', ''Doubao'')]"

text \<open>A value in a template literal: \<^verbatim>\<open>undefined\<close> prints as its name.\<close>

definition interpolate :: "string option \<Rightarrow> string" where
  "interpolate v = (case v of None \<Rightarrow> ''undefined'' | Some x \<Rightarrow> x)"

datatype action_status = Idle | Success | Error

text \<open>
  An \<^verbatim>\<open>async\<close> call of the component that is suspended at its \<^verbatim>\<open>await fetch\<close>:
  \<^verbatim>\<open>loadProvidersInfo\<close> with the call that awaits it, \<^verbatim>\<open>clearConversationHistory\<close> with
  its provider, or \<^verbatim>\<open>resetAllConversations\<close>.
\<close>

datatype caller = FromUI | FromClear | FromReset

datatype pending = Load caller | Clear string | Reset

record tab = component +
  providersInfo :: ConversationState
  isLoading :: bool
  clearingProvider :: "string option"
  actionStatus :: action_status
  inflight :: "pending list"

definition tab_init :: "string \<Rightarrow> tab" where
  "tab_init pid = \<lparr>projectId = pid, sent = [], dialogs = [], console = [], timeouts = [],
     providersInfo = [], isLoading = False, clearingProvider = None, actionStatus = Idle,
     inflight = []\<rparr>"

text \<open>\<^verbatim>\<open>loadProvidersInfo\<close>: up to the request, and from the response on.\<close>

definition loadProvidersInfo :: "caller \<Rightarrow> tab \<Rightarrow> tab" where
  "loadProvidersInfo c t =
     t\<lparr>isLoading := True,
       sent := sent t @ [GET_providers (projectId t)],
       inflight := inflight t @ [Load c]\<rparr>"

definition loadProvidersInfo_resume :: "ConversationState response \<Rightarrow> tab \<Rightarrow> tab" where
  "loadProvidersInfo_resume r t =
     (let t' = (case r of
                  NetworkError \<Rightarrow> t\<lparr>console := console t @ [''Error loading providers info:'']\<rparr>
                | Response okay body \<Rightarrow>
                    if okay then
                      (case body of
                         None \<Rightarrow> t\<lparr>console := console t @ [''Error loading providers info:'']\<rparr>
                       | Some data \<Rightarrow> t\<lparr>providersInfo := data\<rparr>)
                    else t\<lparr>console := console t @ [''Failed to load providers info'']\<rparr>)
      in t'\<lparr>isLoading := False\<rparr>)"

text \<open>
  \<^verbatim>\<open>clearConversationHistory(provider)\<close>. \<open>confirmed\<close> is what the user answers to
  \<^verbatim>\<open>confirm\<close>. After a response that is \<^verbatim>\<open>ok\<close> the function awaits
  \<^verbatim>\<open>loadProvidersInfo()\<close> and goes on in \<open>clearConversationHistory_finish\<close>.
\<close>

definition clearConversationHistory :: "string \<Rightarrow> bool \<Rightarrow> tab \<Rightarrow> tab" where
  "clearConversationHistory p confirmed t =
     (let t1 = t\<lparr>dialogs := dialogs t @ [Confirm
                  (''Are you sure you want to clear the conversation history for ''
                   @ interpolate (map_of PROVIDERS p) @ ''? This action cannot be undone.'')]\<rparr>
      in if \<not> confirmed then t1
         else t1\<lparr>clearingProvider := Some p,
                 sent := sent t1 @ [DELETE_history (projectId t1) p],
                 inflight := inflight t1 @ [Clear p]\<rparr>)"

definition clearConversationHistory_resume :: "ConversationState response \<Rightarrow> tab \<Rightarrow> tab" where
  "clearConversationHistory_resume r t =
     (case r of
        NetworkError \<Rightarrow>
          t\<lparr>console := console t @ [''Error clearing conversation history:''],
            actionStatus := Error, timeouts := timeouts t @ [3000], clearingProvider := None\<rparr>
      | Response okay body \<Rightarrow>
          if okay then loadProvidersInfo FromClear (t\<lparr>actionStatus := Success\<rparr>)
          else t\<lparr>actionStatus := Error, timeouts := timeouts t @ [3000],
                 clearingProvider := None\<rparr>)"

definition clearConversationHistory_finish :: "tab \<Rightarrow> tab" where
  "clearConversationHistory_finish t =
     t\<lparr>timeouts := timeouts t @ [2000], clearingProvider := None\<rparr>"

text \<open>
  \<^verbatim>\<open>resetAllConversations\<close>. \<open>activeProviderNames\<close> is its \<^verbatim>\<open>activeProviders\<close>: the
  entries with \<^verbatim>\<open>info.active\<close>, each mapped to its name in \<^verbatim>\<open>PROVIDERS\<close>, and
  \<^verbatim>\<open>.filter(Boolean)\<close>, which drops \<^verbatim>\<open>undefined\<close> and the empty string.
\<close>

fun filterBoolean :: "string option list \<Rightarrow> string list" where
  "filterBoolean [] = []"
| "filterBoolean (None # xs) = filterBoolean xs"
| "filterBoolean (Some x # xs) = (if x = [] then filterBoolean xs else x # filterBoolean xs)"

definition activeProviderNames :: "ConversationState \<Rightarrow> string list" where
  "activeProviderNames entries =
     filterBoolean (map (\<lambda>(p, _). map_of PROVIDERS p)
       (filter (\<lambda>(_, info). ProviderInfo.active info) entries))"

definition resetAllConversations :: "bool \<Rightarrow> tab \<Rightarrow> tab" where
  "resetAllConversations confirmed t =
     (let names = activeProviderNames (providersInfo t) in
      if length names = 0 then
        t\<lparr>dialogs := dialogs t @ [Alert ''No active conversation history to clear.'']\<rparr>
      else
        let t1 = t\<lparr>dialogs := dialogs t @ [Confirm
                     (''Are you sure you want to clear conversation history for all ''
                      @ toString (length names) @ '' models?'' @ [CHR 0x0A, CHR 0x0A]
                      @ ''Including: '' @ join '', '' names @ [CHR 0x0A, CHR 0x0A]
                      @ ''This action cannot be undone.'')]\<rparr>
        in if \<not> confirmed then t1
           else t1\<lparr>isLoading := True,
                   sent := sent t1 @ [POST_reset_all (projectId t1)],
                   inflight := inflight t1 @ [Reset]\<rparr>)"

definition resetAllConversations_resume :: "ConversationState response \<Rightarrow> tab \<Rightarrow> tab" where
  "resetAllConversations_resume r t =
     (let failed = t\<lparr>console := console t @ [''Error resetting all conversations:''],
                     actionStatus := Error, timeouts := timeouts t @ [3000],
                     isLoading := False\<rparr>
      in case r of
           NetworkError \<Rightarrow> failed
         | Response okay body \<Rightarrow>
             if okay then
               (case body of
                  None \<Rightarrow> failed
                | Some _ \<Rightarrow> loadProvidersInfo FromReset (t\<lparr>actionStatus := Success\<rparr>))
             else t\<lparr>actionStatus := Error, timeouts := timeouts t @ [3000],
                    isLoading := False\<rparr>)"

definition resetAllConversations_finish :: "tab \<Rightarrow> tab" where
  "resetAllConversations_finish t = t\<lparr>timeouts := timeouts t @ [2000], isLoading := False\<rparr>"

text \<open>
  The \<^verbatim>\<open>disabled\<close> attributes of the three kinds of button. \<^verbatim>\<open>providersInfo[provider.id]\<close>
  is \<open>map_of\<close>; \<^verbatim>\<open>info?.active\<close> of a missing entry is falsy. A Clear History button is
  rendered for the providers of \<^verbatim>\<open>PROVIDERS\<close> only.
\<close>

definition refreshDisabled :: "tab \<Rightarrow> bool" where
  "refreshDisabled t = isLoading t"

definition clearAllDisabled :: "tab \<Rightarrow> bool" where
  "clearAllDisabled t =
     (isLoading t \<or> list_all (\<lambda>info. \<not> ProviderInfo.active info) (map snd (providersInfo t)))"

definition clearDisabled :: "tab \<Rightarrow> string \<Rightarrow> bool" where
  "clearDisabled t p =
     (isLoading t \<or> clearingProvider t = Some p
      \<or> \<not> (case map_of (providersInfo t) p of None \<Rightarrow> False
                                               | Some info \<Rightarrow> ProviderInfo.active info))"

text \<open>
  What can happen to a mounted tab: its mount effect, a click on an enabled button (with
  the user's answer to the \<^verbatim>\<open>confirm\<close> that follows), and the arrival of the response to
  the \<open>i\<close>-th call in flight, counted from 0. A click on a disabled button does nothing.
\<close>

datatype tab_event =
    Mount
  | ClickRefresh
  | ClickClear string bool
  | ClickClearAll bool
  | Arrive nat "ConversationState response"

definition resume :: "pending \<Rightarrow> ConversationState response \<Rightarrow> tab \<Rightarrow> tab" where
  "resume p r t =
     (case p of
        Load c \<Rightarrow>
          (let t1 = loadProvidersInfo_resume r t in
           case c of
             FromUI \<Rightarrow> t1
           | FromClear \<Rightarrow> clearConversationHistory_finish t1
           | FromReset \<Rightarrow> resetAllConversations_finish t1)
      | Clear _ \<Rightarrow> clearConversationHistory_resume r t
      | Reset \<Rightarrow> resetAllConversations_resume r t)"

fun tab_step :: "tab \<Rightarrow> tab_event \<Rightarrow> tab" where
  "tab_step t Mount = loadProvidersInfo FromUI t"
| "tab_step t ClickRefresh = (if refreshDisabled t then t else loadProvidersInfo FromUI t)"
| "tab_step t (ClickClear p confirmed) =
     (if p \<in> set (map fst PROVIDERS) \<and> \<not> clearDisabled t p
      then clearConversationHistory p confirmed t else t)"
| "tab_step t (ClickClearAll confirmed) =
     (if clearAllDisabled t then t else resetAllConversations confirmed t)"
| "tab_step t (Arrive i r) =
     (if i < length (inflight t)
      then resume (inflight t ! i) r
             (t\<lparr>inflight := take i (inflight t) @ drop (Suc i) (inflight t)\<rparr>)
      else t)"

definition tab_run :: "tab \<Rightarrow> tab_event list \<Rightarrow> tab" where
  "tab_run t es = foldl tab_step t es"

text \<open>The mutations in flight: the suspended clear and reset calls.\<close>

fun is_mutation :: "pending \<Rightarrow> bool" where
  "is_mutation (Load _) = False"
| "is_mutation (Clear _) = True"
| "is_mutation Reset = True"

definition outstanding_mutations :: "tab \<Rightarrow> pending list" where
  "outstanding_mutations t = filter is_mutation (inflight t)"

section \<open>ConversationStatusIndicator: the chip in the chat view\<close>

text \<open>
  The component that follows SessionContinuityManager in its file. \<open>clearing\<close> counts
  the calls of the clear button's \<^verbatim>\<open>onClick\<close> that are suspended at their
  \<^verbatim>\<open>await fetch\<close>, and \<open>loading\<close> those of \<^verbatim>\<open>loadConversationSummary\<close>.
\<close>

record indicator = component +
  activeProvider :: "string option"
  summary :: "ConversationSummary option"
  isVisible :: bool
  loading :: nat
  clearing :: nat

definition indicator_init :: "string \<Rightarrow> string option \<Rightarrow> indicator" where
  "indicator_init pid ap = \<lparr>projectId = pid, sent = [], dialogs = [], console = [],
     timeouts = [], activeProvider = ap, summary = None, isVisible = False,
     loading = 0, clearing = 0\<rparr>"

text \<open>\<^verbatim>\<open>loadConversationSummary\<close>; a \<^verbatim>\<open>null\<close> body is \<open>Some None\<close>.\<close>

definition loadConversationSummary :: "indicator \<Rightarrow> indicator" where
  "loadConversationSummary i =
     (case activeProvider i of
        None \<Rightarrow> i
      | Some p \<Rightarrow> if p = [] then i
                  else i\<lparr>sent := sent i @ [GET_summary (projectId i) p],
                         loading := Suc (loading i)\<rparr>)"

definition loadConversationSummary_resume ::
  "ConversationSummary option response \<Rightarrow> indicator \<Rightarrow> indicator" where
  "loadConversationSummary_resume r i =
     (let failed = i\<lparr>console := console i @ [''Failed to load conversation summary:'']\<rparr>
      in case r of
           NetworkError \<Rightarrow> failed
         | Response okay body \<Rightarrow>
             if okay then
               (case body of
                  None \<Rightarrow> failed
                | Some None \<Rightarrow> (i\<lparr>summary := None\<rparr>)
                                 \<lparr>console := console i @ [''Failed to load conversation summary:'']\<rparr>
                | Some (Some data) \<Rightarrow>
                    i\<lparr>summary := Some data,
                      isVisible := (ConversationSummary.total_messages data > 0)\<rparr>)
             else i)"

text \<open>
  The component returns \<^verbatim>\<open>null\<close> under
  \<^verbatim>\<open>!isVisible || !summary || summary.total_messages === 0\<close>; otherwise the chip with its
  clear button is rendered.
\<close>

definition chipRendered :: "indicator \<Rightarrow> bool" where
  "chipRendered i =
     (isVisible i \<and> (case summary i of
                       None \<Rightarrow> False
                     | Some sm \<Rightarrow> ConversationSummary.total_messages sm \<noteq> 0))"

text \<open>
  The \<^verbatim>\<open>onClick\<close> of the clear button: the request goes out at once, and whatever
  response arrives, the summary is dropped and the chip hidden.
\<close>

definition clearButton_onClick :: "indicator \<Rightarrow> indicator" where
  "clearButton_onClick i =
     i\<lparr>sent := sent i @ [DELETE_history (projectId i) (interpolate (activeProvider i))],
       clearing := Suc (clearing i)\<rparr>"

definition clearButton_onClick_resume ::
  "ConversationSummary option response \<Rightarrow> indicator \<Rightarrow> indicator" where
  "clearButton_onClick_resume r i =
     (case r of
        NetworkError \<Rightarrow> i\<lparr>console := console i @ [''Failed to clear conversation:''],
                           clearing := clearing i - 1\<rparr>
      | Response okay body \<Rightarrow> i\<lparr>summary := None, isVisible := False,
                                 clearing := clearing i - 1\<rparr>)"

section \<open>ConversationMonitor.tsx: the stats store\<close>

record ConversationStats =
  provider :: string
  total_messages :: nat
  estimated_tokens :: nat
  context_window :: nat
  usage_percentage :: real
  optimization_applied :: bool
  last_optimization :: "string option"

text \<open>
  The body of a stats response once parsed: \<^verbatim>\<open>null\<close>, or a value whose \<^verbatim>\<open>providers\<close>
  field is either falsy or missing (\<open>None\<close>) or a list of entries.
\<close>

datatype stats_json = JsonNull | JsonObject "ConversationStats list option"

datatype phase = Created | Mounted | Unmounted

text \<open>
  The component instance. \<open>stats\<close>, \<open>isVisible\<close> and \<open>refreshInterval\<close> are its state
  cells. \<open>intervals\<close> are the live \<^verbatim>\<open>setInterval\<close> timers, each with the \<^verbatim>\<open>projectId\<close>
  its callback closed over; \<open>cleanup\<close> is the timer that the cleanup function returned
  by the last run of the effect will clear. \<open>fetches\<close> are the stats requests in flight,
  each with the \<^verbatim>\<open>projectId\<close> of its URL.

  The component numbers nothing. For stating properties, a request is labelled with its
  position in \<open>sent\<close>, which is its place in the order of issuance, and \<open>applied\<close> lists
  the labels of the responses that were written to \<open>stats\<close>, oldest first.
\<close>

record monitor = component +
  stats :: "ConversationStats list"
  isVisible :: bool
  refreshInterval :: "nat option"
  phase :: phase
  intervals :: "(nat \<times> string) list"
  cleanup :: "nat option"
  nextInterval :: nat
  fetches :: "(nat \<times> string) list"
  applied :: "nat list"

definition monitor_init :: monitor where
  "monitor_init = \<lparr>projectId = [], sent = [], dialogs = [], console = [], timeouts = [],
     stats = [], isVisible = False, refreshInterval = None, phase = Created,
     intervals = [], cleanup = None, nextInterval = 1, fetches = [], applied = []\<rparr>"

text \<open>
  \<^verbatim>\<open>loadConversationStats\<close> up to its \<^verbatim>\<open>await fetch\<close>; \<open>pid\<close> is the \<^verbatim>\<open>projectId\<close> of
  the render whose closure is called.
\<close>

definition loadConversationStats :: "string \<Rightarrow> monitor \<Rightarrow> monitor" where
  "loadConversationStats pid m =
     m\<lparr>sent := sent m @ [GET_stats pid],
       fetches := fetches m @ [(length (sent m), pid)]\<rparr>"

text \<open>
  The rest of its \<^verbatim>\<open>try\<close> block: \<open>Inl\<close> where it throws, \<open>Inr None\<close> when the response
  is not \<^verbatim>\<open>ok\<close> and nothing is done, \<open>Inr (Some xs)\<close> when \<^verbatim>\<open>setStats(xs)\<close> is called with
  \<^verbatim>\<open>data.providers || []\<close>.
\<close>

definition loadConversationStats_try ::
  "stats_json response \<Rightarrow> exn + ConversationStats list option" where
  "loadConversationStats_try r =
     (case r of
        NetworkError \<Rightarrow> Inl FetchFailed
      | Response okay body \<Rightarrow>
          if okay then
            (case body of
               None \<Rightarrow> Inl SyntaxError
             | Some JsonNull \<Rightarrow> Inl TypeError
             | Some (JsonObject ps) \<Rightarrow> Inr (Some (case ps of None \<Rightarrow> [] | Some xs \<Rightarrow> xs)))
          else Inr None)"

text \<open>
  \<^verbatim>\<open>setStats\<close>, called by the continuation of request \<open>seq\<close>. React drops a state update
  of a component that is no longer mounted.
\<close>

definition setStats :: "nat \<Rightarrow> ConversationStats list \<Rightarrow> monitor \<Rightarrow> monitor" where
  "setStats seq xs m =
     (if phase m = Mounted then m\<lparr>stats := xs, applied := applied m @ [seq]\<rparr> else m)"

definition loadConversationStats_resume ::
  "nat \<Rightarrow> stats_json response \<Rightarrow> monitor \<Rightarrow> monitor" where
  "loadConversationStats_resume seq r m =
     (case loadConversationStats_try r of
        Inl e \<Rightarrow> m\<lparr>console := console m @ [''Failed to load conversation stats:'']\<rparr>
      | Inr None \<Rightarrow> m
      | Inr (Some xs) \<Rightarrow> setStats seq xs m)"

text \<open>
  The effect on \<^verbatim>\<open>[projectId]\<close> and the cleanup function it returns. An empty
  \<^verbatim>\<open>projectId\<close> is falsy: the effect then does nothing and returns no cleanup.
\<close>

definition effect :: "monitor \<Rightarrow> monitor" where
  "effect m =
     (if projectId m \<noteq> [] then
        let m1 = loadConversationStats (projectId m) m; h = nextInterval m1
        in m1\<lparr>intervals := intervals m1 @ [(h, projectId m1)],
               nextInterval := Suc h,
               refreshInterval := Some h,
               cleanup := Some h\<rparr>
      else m\<lparr>cleanup := None\<rparr>)"

definition run_cleanup :: "monitor \<Rightarrow> monitor" where
  "run_cleanup m =
     (case cleanup m of
        None \<Rightarrow> m
      | Some h \<Rightarrow> m\<lparr>intervals := filter (\<lambda>(k, _). k \<noteq> h) (intervals m), cleanup := None\<rparr>)"

text \<open>
  What can happen to the instance: a render with a \<^verbatim>\<open>projectId\<close> prop (the first one
  mounts it; a later one with another \<^verbatim>\<open>projectId\<close> runs the cleanup and the effect
  again), its unmounting, a tick of the interval \<open>h\<close>, the arrival of the response to
  the request labelled \<open>seq\<close>, and a click on the details toggle.
\<close>

datatype monitor_event =
    Render string
  | Unmount
  | Tick nat
  | Deliver nat "stats_json response"
  | ToggleDetails

fun monitor_step :: "monitor \<Rightarrow> monitor_event \<Rightarrow> monitor" where
  "monitor_step m (Render pid) =
     (case phase m of
        Created \<Rightarrow> effect (m\<lparr>projectId := pid, phase := Mounted\<rparr>)
      | Mounted \<Rightarrow> if pid = projectId m then m
                   else effect ((run_cleanup m)\<lparr>projectId := pid\<rparr>)
      | Unmounted \<Rightarrow> m)"
| "monitor_step m Unmount =
     (case phase m of
        Mounted \<Rightarrow> (run_cleanup m)\<lparr>phase := Unmounted\<rparr>
      | _ \<Rightarrow> m)"
| "monitor_step m (Tick h) =
     (case map_of (intervals m) h of
        None \<Rightarrow> m
      | Some pid \<Rightarrow> loadConversationStats pid m)"
| "monitor_step m (Deliver seq r) =
     (case map_of (fetches m) seq of
        None \<Rightarrow> m
      | Some pid \<Rightarrow>
          loadConversationStats_resume seq r
            (m\<lparr>fetches := filter (\<lambda>(k, _). k \<noteq> seq) (fetches m)\<rparr>))"
| "monitor_step m ToggleDetails =
     (if phase m = Mounted \<and> stats m \<noteq> [] then m\<lparr>isVisible := \<not> isVisible m\<rparr> else m)"

definition monitor_run :: "monitor \<Rightarrow> monitor_event list \<Rightarrow> monitor" where
  "monitor_run m es = foldl monitor_step m es"

text \<open>
  The render. With an empty \<open>stats\<close> the component returns \<^verbatim>\<open>null\<close>. Otherwise the
  overview shows three numbers (before \<^verbatim>\<open>formatNumber\<close> and \<^verbatim>\<open>toFixed\<close> turn them into
  text); \<^verbatim>\<open>Math.max(...xs)\<close> of a non-empty list is the fold of \<open>max\<close> over it.
\<close>

record Overview =
  activeModels :: nat
  totalTokens :: nat
  maxUsage :: real

definition overview :: "ConversationStats list \<Rightarrow> Overview option" where
  "overview st =
     (case st of
        [] \<Rightarrow> None
      | s # rest \<Rightarrow>
          Some \<lparr>activeModels = length (filter (\<lambda>s. total_messages s > 0) st),
                totalTokens = foldl (\<lambda>acc s. acc + estimated_tokens s) 0 st,
                maxUsage = foldl max (usage_percentage s) (map usage_percentage rest)\<rparr>)"

text \<open>
  The detail rows, shown under \<^verbatim>\<open>isVisible\<close>: one per entry with messages. Each row
  prints \<^verbatim>\<open>usage_percentage.toFixed(1)\<close> and draws a bar of width
  \<^verbatim>\<open>Math.min(stat.usage_percentage, 100)\<close> percent.
\<close>

definition detailRows :: "monitor \<Rightarrow> ConversationStats list" where
  "detailRows m =
     (if stats m \<noteq> [] \<and> isVisible m then filter (\<lambda>s. total_messages s > 0) (stats m) else [])"

definition barWidth :: "ConversationStats \<Rightarrow> real" where
  "barWidth s = min (usage_percentage s) 100"

text \<open>The warning box: \<^verbatim>\<open>stats.some(s => s.usage_percentage > 80)\<close>.\<close>

definition highUsageWarning :: "ConversationStats list \<Rightarrow> bool" where
  "highUsageWarning st = (st \<noteq> [] \<and> list_ex (\<lambda>s. usage_percentage s > 80) st)"

text \<open>
  The data model of the specification keeps one state per provider that has both an
  \<^verbatim>\<open>active\<close> flag and the counters. In the code the flag comes from the providers endpoint
  and the counters from the stats endpoint; \<open>spec_state\<close> pairs the two, and
  \<open>spec_activeCount\<close> is the count as the specification words it:
  \<^verbatim>\<open>count(p : state[p].active && state[p].totalMessages>0)\<close>.
\<close>

type_synonym spec_state = "(bool \<times> ConversationStats) list"

definition spec_activeCount :: "spec_state \<Rightarrow> nat" where
  "spec_activeCount snapshot =
     length (filter (\<lambda>(is_active, s). is_active \<and> total_messages s > 0) snapshot)"

section \<open>Example inputs\<close>

text \<open>A tab whose only active provider is not in \<^verbatim>\<open>PROVIDERS\<close>.\<close>

definition unknown_tab :: tab where
  "unknown_tab = (tab_init ''p1'')\<lparr>providersInfo :=
     [(''openai'', \<lparr>active = True, ProviderInfo.summary = None\<rparr>),
      (''kimi'', \<lparr>active = False, ProviderInfo.summary = None\<rparr>)]\<rparr>"

text \<open>A providers response with two active providers.\<close>

definition two_active :: ConversationState where
  "two_active = [(''deepseek'', \<lparr>active = True, ProviderInfo.summary = None\<rparr>),
                 (''qwen'', \<lparr>active = True, ProviderInfo.summary = None\<rparr>)]"

text \<open>The tab once it has loaded them.\<close>

definition loaded_tab :: tab where
  "loaded_tab = tab_run (tab_init ''p1'') [Mount, Arrive 0 (Response True (Some two_active))]"

text \<open>
  A stats entry with the given provider, message count, token estimate, context window and
  reported usage percentage, and a 2xx stats response whose body carries a list of entries.
\<close>

definition stat :: "string \<Rightarrow> nat \<Rightarrow> nat \<Rightarrow> nat \<Rightarrow> real \<Rightarrow> ConversationStats" where
  "stat p n tokens window pct = \<lparr>provider = p, total_messages = n, estimated_tokens = tokens,
     context_window = window, usage_percentage = pct, optimization_applied = False,
     last_optimization = None\<rparr>"

definition ok_stats :: "ConversationStats list \<Rightarrow> stats_json response" where
  "ok_stats xs = Response True (Some (JsonObject (Some xs)))"

text \<open>
  A monitor with two requests issued, 0 by the mount and 1 by a tick of the timer, after
  the response to request 1 has arrived.
\<close>

definition two_in_flight :: monitor where
  "two_in_flight = monitor_run monitor_init
     [Render ''p1'', Tick 1, Deliver 1 (ok_stats [stat ''deepseek'' 7 0 1 0])]"

text \<open>
  A monitor that holds one entry and has request 1 in flight.
\<close>

definition holding_stats :: monitor where
  "holding_stats = monitor_run monitor_init
     [Render ''p1'', Deliver 0 (ok_stats [stat ''deepseek'' 5 8000 10000 80]), Tick 1]"

text \<open>
  A monitor just mounted, with request 0 in flight.
\<close>

definition awaiting_stats :: monitor where
  "awaiting_stats = monitor_run monitor_init [Render ''p1'']"

text \<open>
  A snapshot of the specification's data model in which deepseek is inactive with three
  messages and qwen is active with four.
\<close>

definition inactive_with_messages :: spec_state where
  "inactive_with_messages = [(False, stat ''deepseek'' 3 1200 10000 12),
                             (True, stat ''qwen'' 4 800 10000 8)]"

section \<open>Properties of the restoration flow\<close>

lemma toString_8: "toString 8 = ''8''"
  by (simp add: toString.simps digit_def)

text \<open>
  C8. Given the providers response \<open>{deepseek: active, 5 messages; qwen: active, 3 messages;
  kimi: inactive}\<close>, the restoration flow reports \<open>hasActiveConversation = true\<close>,
  \<open>providers = [deepseek, qwen]\<close> and \<open>messageCount = 8\<close> to both callbacks, and shows a
  status message that contains the display names of both providers and \<open>8\<close>. The other
  fields of the two summaries, the summary of kimi, the project and the clock are
  arbitrary.
\<close>

theorem C8_restoration_example:
  fixes pid now :: string and sm1 sm2 :: ConversationSummary
    and kimi_summary :: "ConversationSummary option"
  defines "data \<equiv>
     [(''deepseek'', \<lparr>active = True, ProviderInfo.summary =
                         Some (sm1\<lparr>ConversationSummary.total_messages := 5\<rparr>)\<rparr>),
      (''qwen'', \<lparr>active = True, ProviderInfo.summary =
                     Some (sm2\<lparr>ConversationSummary.total_messages := 3\<rparr>)\<rparr>),
      (''kimi'', \<lparr>active = False, ProviderInfo.summary = kimi_summary\<rparr>)]"
  defines "s \<equiv> restoration_flow \<lparr>onSessionRestore = True, onConversationLoaded = True\<rparr>
                 pid now (Response True (Some data))"
  defines "info \<equiv> \<lparr>hasActiveConversation = True, providers = [''deepseek'', ''qwen''],
                     lastActivity = now, messageCount = 8\<rparr>"
  shows "sessionInfo s = Some info
       \<and> calls s = [SessionRestore info, ConversationLoaded True]
       \<and> statusMessage s = msg_restored @ '' '' @ ''DeepSeek'' @ sep_comma @ name_qwen @ '' ''
                               @ msg_history @ '' ('' @ ''8'' @ msg_messages @ '')''
       \<and> sublist (formatProviderName ''deepseek'') (statusMessage s)
       \<and> sublist (formatProviderName ''qwen'') (statusMessage s)
       \<and> sublist ''8'' (statusMessage s)
       \<and> bannerShown s \<and> timeouts s = [3000] \<and> console s = []"
proof -
  have ap: "activeProviders data = Inr [''deepseek'', ''qwen'']"
    by (simp add: data_def)
  have tm: "totalMessages data = Inr 8"
    by (simp add: data_def totalMessages_def)
  have s_eq: "s = (session_init pid)\<lparr>sent := [GET_providers pid], sessionInfo := Some info,
                   calls := [SessionRestore info, ConversationLoaded True],
                   statusMessage := restoredMessage (''DeepSeek'' @ sep_comma @ name_qwen) 8,
                   showStatus := True, timeouts := [3000], session.isLoading := False\<rparr>"
    by (simp add: s_def restoration_flow_def checkAndRestoreConversations_resume_def
        checkAndRestoreConversations_def restore_try_def ap tm info_def Let_def
        session_init_def formatProviderName_def)
  have msg: "statusMessage s = msg_restored @ '' '' @ ''DeepSeek'' @ sep_comma @ name_qwen @ '' ''
                               @ msg_history @ '' ('' @ ''8'' @ msg_messages @ '')''"
    by (simp add: s_eq restoredMessage_def toString_8)
  have d: "sublist (formatProviderName ''deepseek'') (statusMessage s)"
    unfolding msg formatProviderName_def sublist_def
    by (intro exI [of _ "msg_restored @ '' ''"]
        exI [of _ "sep_comma @ name_qwen @ '' '' @ msg_history @ '' ('' @ ''8''
                   @ msg_messages @ '')''"]) simp
  have q: "sublist (formatProviderName ''qwen'') (statusMessage s)"
    unfolding msg formatProviderName_def sublist_def
    by (intro exI [of _ "msg_restored @ '' '' @ ''DeepSeek'' @ sep_comma"]
        exI [of _ "'' '' @ msg_history @ '' ('' @ ''8'' @ msg_messages @ '')''"]) simp
  have e: "sublist ''8'' (statusMessage s)"
    unfolding msg sublist_def
    by (intro exI [of _ "msg_restored @ '' '' @ ''DeepSeek'' @ sep_comma @ name_qwen @ '' ''
                         @ msg_history @ '' (''"]
        exI [of _ "msg_messages @ '')''"]) simp
  have rest: "sessionInfo s = Some info"
    "calls s = [SessionRestore info, ConversationLoaded True]"
    "bannerShown s" "timeouts s = [3000]" "console s = []"
    by (simp_all add: s_eq bannerShown_def session_init_def)
  from msg d q e rest show ?thesis by blast
qed

text \<open>
  C7. The claim is that a failed initial fetch (network error or a response that is not
  2xx) and an empty set of active providers end the same way: the consumer callback is
  called with "no active conversation" and no banner is shown. The code does so for a
  network error and for an empty set, but for a response that is not \<^verbatim>\<open>ok\<close> it calls no
  callback at all: the \<^verbatim>\<open>if (response.ok)\<close> has no \<^verbatim>\<open>else\<close>.
\<close>

theorem C7_not_ok_response_is_not_reported:
  fixes pid now :: string and body :: "ConversationState option"
  defines "props \<equiv> \<lparr>onSessionRestore = True, onConversationLoaded = True\<rparr>"
  shows "calls (restoration_flow props pid now (Response False body)) = []
       \<and> calls (restoration_flow props pid now NetworkError) = [ConversationLoaded False]
       \<and> calls (restoration_flow props pid now (Response True (Some [])))
           = [ConversationLoaded False]
       \<and> \<not> bannerShown (restoration_flow props pid now (Response False body))
       \<and> \<not> bannerShown (restoration_flow props pid now NetworkError)
       \<and> \<not> bannerShown (restoration_flow props pid now (Response True (Some [])))"
  by (simp add: props_def restoration_flow_def checkAndRestoreConversations_resume_def
      checkAndRestoreConversations_def restore_try_def session_init_def Let_def
      bannerShown_def)

section \<open>Properties of the history tab and of the indicator\<close>

lemma activeProviderNames_Nil: "activeProviderNames [] = []"
  by (simp add: activeProviderNames_def)

lemma activeProviderNames_Cons:
  "activeProviderNames ((p, info) # rest) =
     (if ProviderInfo.active info \<and> p \<in> set (map fst PROVIDERS)
      then interpolate (map_of PROVIDERS p) # activeProviderNames rest
      else activeProviderNames rest)"
  by (auto simp add: activeProviderNames_def PROVIDERS_def interpolate_def)

lemma activeProviderNames_known:
  "activeProviderNames entries =
     map (\<lambda>(p, _). interpolate (map_of PROVIDERS p))
       (filter (\<lambda>(p, info). ProviderInfo.active info \<and> p \<in> set (map fst PROVIDERS)) entries)"
proof (induction entries)
  case Nil
  show ?case by (simp add: activeProviderNames_Nil)
next
  case (Cons e entries)
  obtain p info where e: "e = (p, info)" by (cases e)
  show ?case
    unfolding e by (simp only: activeProviderNames_Cons Cons.IH) simp
qed


text \<open>
  C10. In \<^verbatim>\<open>resetAllConversations\<close> the active providers are the entries with
  \<^verbatim>\<open>info.active\<close> whose id is one of deepseek, qwen, kimi and doubao, each mapped to its
  name in \<^verbatim>\<open>PROVIDERS\<close>; every other id is dropped. So when every active provider has an id
  outside the table, the function only shows the "nothing to clear" alert and sends no
  request, although active providers exist; and with no active provider at all it sends
  no request either.
\<close>

theorem C10_clear_all_skips_unknown_providers:
  fixes t :: tab
  shows "activeProviderNames (providersInfo t) =
           map (\<lambda>(p, _). interpolate (map_of PROVIDERS p))
             (filter (\<lambda>(p, info). ProviderInfo.active info
                        \<and> p \<in> {''deepseek'', ''qwen'', ''kimi'', ''doubao''}) (providersInfo t))
       \<and> ((\<forall>(p, info) \<in> set (providersInfo t).
              ProviderInfo.active info \<longrightarrow> p \<notin> {''deepseek'', ''qwen'', ''kimi'', ''doubao''})
            \<longrightarrow> resetAllConversations confirmed t
                  = t\<lparr>dialogs := dialogs t @ [Alert ''No active conversation history to clear.'']\<rparr>
                \<and> sent (resetAllConversations confirmed t) = sent t
                \<and> inflight (resetAllConversations confirmed t) = inflight t
                \<and> sent (tab_step t (ClickClearAll confirmed)) = sent t)
       \<and> ((\<forall>(p, info) \<in> set (providersInfo t). \<not> ProviderInfo.active info)
            \<longrightarrow> sent (resetAllConversations confirmed t) = sent t
                \<and> sent (tab_step t (ClickClearAll confirmed)) = sent t)"
proof -
  have ids: "set (map fst PROVIDERS) = {''deepseek'', ''qwen'', ''kimi'', ''doubao''}"
    by (auto simp add: PROVIDERS_def)
  have names: "activeProviderNames (providersInfo t) =
           map (\<lambda>(p, _). interpolate (map_of PROVIDERS p))
             (filter (\<lambda>(p, info). ProviderInfo.active info
                        \<and> p \<in> {''deepseek'', ''qwen'', ''kimi'', ''doubao''}) (providersInfo t))"
    using activeProviderNames_known [of "providersInfo t"] unfolding ids .
  have unknown: "resetAllConversations confirmed t
                  = t\<lparr>dialogs := dialogs t @ [Alert ''No active conversation history to clear.'']\<rparr>
                \<and> sent (resetAllConversations confirmed t) = sent t
                \<and> inflight (resetAllConversations confirmed t) = inflight t
                \<and> sent (tab_step t (ClickClearAll confirmed)) = sent t"
    if none: "\<forall>(p, info) \<in> set (providersInfo t).
              ProviderInfo.active info \<longrightarrow> p \<notin> {''deepseek'', ''qwen'', ''kimi'', ''doubao''}"
  proof -
    from none have "filter (\<lambda>(p, info). ProviderInfo.active info
                        \<and> p \<in> {''deepseek'', ''qwen'', ''kimi'', ''doubao''}) (providersInfo t) = []"
      by (auto simp add: filter_empty_conv)
    then have "activeProviderNames (providersInfo t) = []"
      by (simp only: names list.map)
    then have "resetAllConversations confirmed t
               = t\<lparr>dialogs := dialogs t @ [Alert ''No active conversation history to clear.'']\<rparr>"
      by (simp add: resetAllConversations_def)
    then show ?thesis by simp
  qed
  have inactive: "sent (resetAllConversations confirmed t) = sent t
                \<and> sent (tab_step t (ClickClearAll confirmed)) = sent t"
    if "\<forall>(p, info) \<in> set (providersInfo t). \<not> ProviderInfo.active info"
    using that unknown by auto
  from names unknown inactive show ?thesis by blast
qed

theorem C10_clear_all_skips_unknown_providers_witness:
  "ProviderInfo.active (snd (hd (providersInfo unknown_tab)))
   \<and> \<not> clearAllDisabled unknown_tab
   \<and> activeProviderNames (providersInfo unknown_tab) = []
   \<and> resetAllConversations True unknown_tab
       = unknown_tab\<lparr>dialogs := [Alert ''No active conversation history to clear.'']\<rparr>
   \<and> sent (tab_step unknown_tab (ClickClearAll True)) = []
   \<and> sent (tab_step (tab_init ''p1'') (ClickClearAll True)) = []"
  using C10_clear_all_skips_unknown_providers [of unknown_tab True]
    C10_clear_all_skips_unknown_providers [of "tab_init ''p1''" True]
  by (simp add: unknown_tab_def tab_init_def clearAllDisabled_def)


text \<open>
  C3. The claim is that a DELETE that clears one provider's history is sent only after the
  user has confirmed it, on every path of the user interface. The clear button of
  ConversationStatusIndicator sends the DELETE at once and asks nothing, for any state
  of the indicator; \<^verbatim>\<open>clearConversationHistory\<close> of the history tab sends it only when the
  \<^verbatim>\<open>confirm\<close> dialog that names the provider was answered with yes.
\<close>

theorem C3_indicator_deletes_without_confirmation:
  fixes i :: indicator and t :: tab and p :: string
  shows "sent (clearButton_onClick i)
           = sent i @ [DELETE_history (projectId i) (interpolate (activeProvider i))]
       \<and> dialogs (clearButton_onClick i) = dialogs i
       \<and> sent (clearConversationHistory p False t) = sent t
       \<and> sent (clearConversationHistory p True t) = sent t @ [DELETE_history (projectId t) p]
       \<and> dialogs (clearConversationHistory p True t) = dialogs t @ [Confirm
            (''Are you sure you want to clear the conversation history for ''
             @ interpolate (map_of PROVIDERS p) @ ''? This action cannot be undone.'')]"
  by (simp add: clearButton_onClick_def clearConversationHistory_def Let_def)


text \<open>
  C4, as stated: at most one mutation is outstanding at any time. It fails. After the
  tab has loaded two active providers, a confirmed Clear History for deepseek followed by
  a confirmed Clear All History leaves both requests in flight; so does a second Clear
  History for qwen; and along a longer run a Clear History is started while the reset-all
  request is in flight.
\<close>

theorem C4_two_mutations_in_flight:
  "outstanding_mutations (tab_run (tab_init ''p1'')
      [Mount, Arrive 0 (Response True (Some two_active)),
       ClickClear ''deepseek'' True, ClickClearAll True])
     = [Clear ''deepseek'', Reset]
   \<and> \<not> length (outstanding_mutations (tab_run (tab_init ''p1'')
      [Mount, Arrive 0 (Response True (Some two_active)),
       ClickClear ''deepseek'' True, ClickClearAll True])) \<le> 1
   \<and> outstanding_mutations (tab_run (tab_init ''p1'')
      [Mount, Arrive 0 (Response True (Some two_active)),
       ClickClear ''deepseek'' True, ClickClear ''qwen'' True])
     = [Clear ''deepseek'', Clear ''qwen'']
   \<and> outstanding_mutations (tab_run (tab_init ''p1'')
      [Mount, Arrive 0 (Response True (Some two_active)),
       ClickClear ''deepseek'' True, ClickRefresh, Arrive 0 (Response True None),
       Arrive 0 (Response True (Some two_active)), ClickClearAll True,
       Arrive 0 (Response True (Some two_active)), ClickClear ''qwen'' True])
     = [Reset, Clear ''qwen'']"
  by (simp add: tab_run_def tab_init_def two_active_def outstanding_mutations_def
      loadProvidersInfo_def loadProvidersInfo_resume_def resume_def
      clearConversationHistory_def clearConversationHistory_resume_def
      clearConversationHistory_finish_def resetAllConversations_def
      resetAllConversations_resume_def resetAllConversations_finish_def
      refreshDisabled_def clearAllDisabled_def clearDisabled_def PROVIDERS_def
      activeProviderNames_def Let_def)


text \<open>
  C4, amended. The tab has no slot for one outstanding mutation; its buttons are gated by
  two state flags. While \<^verbatim>\<open>isLoading\<close> is set, a click on Clear All History or on any
  Clear History does nothing, and while \<^verbatim>\<open>clearingProvider\<close> is \<open>p\<close> a click on the Clear
  History of \<open>p\<close> does nothing. A Clear All that sends its request sets \<^verbatim>\<open>isLoading\<close>; a
  Clear History of \<open>p\<close> that sends its request sets \<^verbatim>\<open>clearingProvider\<close> to \<open>p\<close> and leaves
  \<^verbatim>\<open>isLoading\<close> as it was.
\<close>

theorem C4_mutations_gated_by_flags:
  fixes t :: tab
  shows "(isLoading t \<longrightarrow> tab_step t (ClickClearAll c) = t \<and> tab_step t (ClickClear p c) = t)
       \<and> (clearingProvider t = Some p \<longrightarrow> tab_step t (ClickClear p c) = t)
       \<and> (sent (tab_step t (ClickClearAll c)) \<noteq> sent t \<longrightarrow>
            isLoading (tab_step t (ClickClearAll c))
            \<and> clearingProvider (tab_step t (ClickClearAll c)) = clearingProvider t
            \<and> inflight (tab_step t (ClickClearAll c)) = inflight t @ [Reset])
       \<and> (sent (tab_step t (ClickClear p c)) \<noteq> sent t \<longrightarrow>
            clearingProvider (tab_step t (ClickClear p c)) = Some p
            \<and> isLoading (tab_step t (ClickClear p c)) = isLoading t
            \<and> inflight (tab_step t (ClickClear p c)) = inflight t @ [Clear p])"
  by (auto simp add: clearAllDisabled_def clearDisabled_def resetAllConversations_def
      clearConversationHistory_def Let_def)

theorem C4_mutations_gated_by_flags_witness:
  "isLoading (tab_step loaded_tab (ClickClearAll True))
   \<and> tab_step (tab_step loaded_tab (ClickClearAll True)) (ClickClear ''qwen'' True)
       = tab_step loaded_tab (ClickClearAll True)
   \<and> tab_step (tab_step loaded_tab (ClickClearAll True)) (ClickClearAll True)
       = tab_step loaded_tab (ClickClearAll True)
   \<and> clearingProvider (tab_step loaded_tab (ClickClear ''deepseek'' True)) = Some ''deepseek''
   \<and> tab_step (tab_step loaded_tab (ClickClear ''deepseek'' True)) (ClickClear ''deepseek'' True)
       = tab_step loaded_tab (ClickClear ''deepseek'' True)
   \<and> sent (tab_step loaded_tab (ClickClearAll True)) \<noteq> sent loaded_tab
   \<and> inflight (tab_step loaded_tab (ClickClearAll True)) = [Reset]
   \<and> sent (tab_step loaded_tab (ClickClear ''deepseek'' True)) \<noteq> sent loaded_tab
   \<and> \<not> isLoading (tab_step loaded_tab (ClickClear ''deepseek'' True))
   \<and> inflight (tab_step loaded_tab (ClickClear ''deepseek'' True)) = [Clear ''deepseek'']"
  using C4_mutations_gated_by_flags [of "tab_step loaded_tab (ClickClearAll True)" True "''qwen''"]
    C4_mutations_gated_by_flags
      [of "tab_step loaded_tab (ClickClear ''deepseek'' True)" True "''deepseek''"]
    C4_mutations_gated_by_flags [of loaded_tab True "''deepseek''"]
  by (simp add: loaded_tab_def tab_run_def tab_init_def two_active_def
      loadProvidersInfo_def loadProvidersInfo_resume_def resume_def
      clearConversationHistory_def resetAllConversations_def
      refreshDisabled_def clearAllDisabled_def clearDisabled_def PROVIDERS_def
      activeProviderNames_def Let_def)

section \<open>Properties of the monitor\<close>

lemmas monitor_defs = monitor_run_def monitor_init_def effect_def run_cleanup_def
  loadConversationStats_def loadConversationStats_resume_def loadConversationStats_try_def
  setStats_def Let_def

lemma monitor_run_snoc: "monitor_run m (es @ [e]) = monitor_step (monitor_run m es) e"
  by (simp add: monitor_run_def)

lemma deliver_ok:
  assumes "phase m = Mounted" and "map_of (fetches m) seq = Some pid"
  shows "monitor_step m (Deliver seq (Response True (Some (JsonObject ps))))
           = m\<lparr>fetches := filter (\<lambda>(k, _). k \<noteq> seq) (fetches m),
               stats := (case ps of None \<Rightarrow> [] | Some xs \<Rightarrow> xs),
               applied := applied m @ [seq]\<rparr>"
  using assms
  by (simp add: loadConversationStats_resume_def loadConversationStats_try_def setStats_def)

lemma timer_invariant:
  "intervals (monitor_run monitor_init es)
     = (case cleanup (monitor_run monitor_init es) of
          None \<Rightarrow> []
        | Some h \<Rightarrow> [(h, projectId (monitor_run monitor_init es))])
   \<and> (phase (monitor_run monitor_init es) \<noteq> Mounted
        \<longrightarrow> cleanup (monitor_run monitor_init es) = None)"
proof (induction es rule: rev_induct)
  case Nil
  show ?case by (simp add: monitor_run_def monitor_init_def)
next
  case (snoc e es)
  define m where "m = monitor_run monitor_init es"
  from snoc.IH have inv: "intervals m = (case cleanup m of None \<Rightarrow> [] | Some h \<Rightarrow> [(h, projectId m)])"
    and off: "phase m \<noteq> Mounted \<longrightarrow> cleanup m = None"
    unfolding m_def by blast+
  have "intervals (monitor_step m e)
          = (case cleanup (monitor_step m e) of
               None \<Rightarrow> [] | Some h \<Rightarrow> [(h, projectId (monitor_step m e))])
        \<and> (phase (monitor_step m e) \<noteq> Mounted \<longrightarrow> cleanup (monitor_step m e) = None)"
  proof (cases e)
    case (Render pid)
    with inv off show ?thesis
      by (cases "phase m")
        (auto simp add: effect_def run_cleanup_def loadConversationStats_def Let_def
          split: option.splits)
  next
    case Unmount
    with inv off show ?thesis
      by (cases "phase m") (auto simp add: run_cleanup_def split: option.splits)
  next
    case (Tick h)
    with inv off show ?thesis
      by (auto simp add: loadConversationStats_def split: option.splits)
  next
    case (Deliver seq r)
    with inv off show ?thesis
      by (auto simp add: loadConversationStats_resume_def setStats_def
          split: option.splits sum.splits)
  next
    case ToggleDetails
    with inv off show ?thesis by (auto split: option.splits)
  qed
  then show ?case unfolding monitor_run_snoc m_def .
qed

text \<open>
  C1, as stated: responses applied in any arrival order never replace the snapshot of the
  store with one from an older request. It fails: the requests carry no sequence number
  and nothing is discarded. With request 0 issued by the mount and request 1 by a tick,
  the response to request 1 arrives first and is stored, then the response to request 0
  arrives and replaces it. The labels of the applied responses are \<open>[1, 0]\<close>.
\<close>

theorem C1_older_response_overwrites_newer:
  "applied (monitor_run monitor_init
      [Render ''p1'', Tick 1,
       Deliver 1 (ok_stats [stat ''deepseek'' 7 0 1 0]),
       Deliver 0 (ok_stats [stat ''deepseek'' 5 0 1 0])]) = [1, 0]
   \<and> \<not> sorted (applied (monitor_run monitor_init
      [Render ''p1'', Tick 1,
       Deliver 1 (ok_stats [stat ''deepseek'' 7 0 1 0]),
       Deliver 0 (ok_stats [stat ''deepseek'' 5 0 1 0])]))
   \<and> stats (monitor_run monitor_init
      [Render ''p1'', Tick 1,
       Deliver 1 (ok_stats [stat ''deepseek'' 7 0 1 0])]) = [stat ''deepseek'' 7 0 1 0]
   \<and> stats (monitor_run monitor_init
      [Render ''p1'', Tick 1,
       Deliver 1 (ok_stats [stat ''deepseek'' 7 0 1 0]),
       Deliver 0 (ok_stats [stat ''deepseek'' 5 0 1 0])]) = [stat ''deepseek'' 5 0 1 0]"
  by (simp add: monitor_defs ok_stats_def)

text \<open>
  C1, amended. The monitor applies responses in their order of arrival: while it is
  mounted, every 2xx response to a request in flight whose body parses to an object
  replaces the snapshot of the store at once (with \<^verbatim>\<open>providers\<close>, or with the empty list
  when the field is missing), whatever the place of its request in the order of issuance.
  The last arrival wins. The history tab does the same with its providers snapshot:
  \<^verbatim>\<open>loadProvidersInfo\<close> stores the body of every 2xx response it awaits.
\<close>

theorem C1_last_arrival_wins:
  fixes m :: monitor and t :: tab
  assumes "phase m = Mounted" and "map_of (fetches m) seq = Some pid"
  shows "stats (monitor_step m (Deliver seq (Response True (Some (JsonObject ps)))))
           = (case ps of None \<Rightarrow> [] | Some xs \<Rightarrow> xs)
       \<and> applied (monitor_step m (Deliver seq (Response True (Some (JsonObject ps)))))
           = applied m @ [seq]
       \<and> providersInfo (loadProvidersInfo_resume (Response True (Some data)) t) = data"
proof -
  note e = deliver_ok [OF assms, of ps]
  show ?thesis unfolding e by (simp add: loadProvidersInfo_resume_def)
qed

theorem C1_last_arrival_wins_witness:
  "phase two_in_flight = Mounted
   \<and> map_of (fetches two_in_flight) 0 = Some ''p1''
   \<and> applied two_in_flight = [1]
   \<and> stats (monitor_step two_in_flight (Deliver 0 (ok_stats [stat ''deepseek'' 5 0 1 0])))
       = [stat ''deepseek'' 5 0 1 0]
   \<and> applied (monitor_step two_in_flight (Deliver 0 (ok_stats [stat ''deepseek'' 5 0 1 0])))
       = [1, 0]"
proof -
  have p: "phase two_in_flight = Mounted"
    by (simp add: two_in_flight_def monitor_defs ok_stats_def)
  have f: "map_of (fetches two_in_flight) 0 = Some ''p1''"
    by (simp add: two_in_flight_def monitor_defs ok_stats_def)
  have a: "applied two_in_flight = [1]"
    by (simp add: two_in_flight_def monitor_defs ok_stats_def)
  from C1_last_arrival_wins [OF p f, of "Some [stat ''deepseek'' 5 0 1 0]"] p f a
  show ?thesis by (simp add: ok_stats_def)
qed

text \<open>
  C2, as stated: a 2xx stats response whose body lacks \<^verbatim>\<open>providers\<close> leaves the snapshot of
  the store unchanged. It fails: \<^verbatim>\<open>setStats(data.providers || [])\<close> stores the empty
  list, so a store that held an entry is emptied.
\<close>

theorem C2_missing_providers_empties_store:
  "stats holding_stats = [stat ''deepseek'' 5 8000 10000 80]
   \<and> fetches holding_stats = [(1, ''p1'')]
   \<and> stats (monitor_step holding_stats (Deliver 1 (Response True (Some (JsonObject None))))) = []
   \<and> stats (monitor_step holding_stats (Deliver 1 (Response True (Some (JsonObject None)))))
       \<noteq> stats holding_stats"
  by (simp add: holding_stats_def monitor_defs ok_stats_def stat_def)

text \<open>
  C2, amended. A 2xx stats response whose body lacks the \<^verbatim>\<open>providers\<close> field is not
  handled as a failure: it replaces the snapshot with the empty list and logs nothing.
  The snapshot is left unchanged by a network error, by a response that is not 2xx, by a
  body that is not JSON and by a \<^verbatim>\<open>null\<close> body; every exception of the \<^verbatim>\<open>try\<close> block is
  caught and logged with \<^verbatim>\<open>console.error\<close>, so none escapes.
\<close>

theorem C2_only_failed_fetch_keeps_store:
  fixes m :: monitor
  shows "loadConversationStats_resume seq (Response True (Some (JsonObject None))) m
           = setStats seq [] m
       \<and> (phase m = Mounted \<longrightarrow>
            stats (loadConversationStats_resume seq (Response True (Some (JsonObject None))) m) = []
          \<and> console (loadConversationStats_resume seq (Response True (Some (JsonObject None))) m)
              = console m)
       \<and> stats (loadConversationStats_resume seq NetworkError m) = stats m
       \<and> stats (loadConversationStats_resume seq (Response False body) m) = stats m
       \<and> stats (loadConversationStats_resume seq (Response True None) m) = stats m
       \<and> stats (loadConversationStats_resume seq (Response True (Some JsonNull)) m) = stats m
       \<and> (\<forall>e. loadConversationStats_try r = Inl e \<longrightarrow>
            loadConversationStats_resume seq r m
              = m\<lparr>console := console m @ [''Failed to load conversation stats:'']\<rparr>)"
  by (simp add: loadConversationStats_resume_def loadConversationStats_try_def setStats_def)

theorem C2_only_failed_fetch_keeps_store_witness:
  "phase holding_stats = Mounted
   \<and> stats (loadConversationStats_resume 1 (Response True (Some (JsonObject None))) holding_stats)
       = []
   \<and> loadConversationStats_try (NetworkError :: stats_json response) = Inl FetchFailed
   \<and> stats (loadConversationStats_resume 1 NetworkError holding_stats)
       = [stat ''deepseek'' 5 8000 10000 80]
   \<and> console (loadConversationStats_resume 1 NetworkError holding_stats)
       = [''Failed to load conversation stats:'']"
  using C2_only_failed_fetch_keeps_store [of 1 holding_stats None NetworkError]
  by (simp add: holding_stats_def monitor_defs ok_stats_def stat_def)

text \<open>
  C5, as stated: once the project identifier of a view has changed, a pending response
  tagged with the old identifier is ignored on arrival. It fails: the view is rendered
  for project A, then for project B; the response for B arrives and is stored; then the
  late response to the request for A arrives and replaces it, while the view shows B.
\<close>

theorem C5_stale_project_response_is_applied:
  "projectId (monitor_run monitor_init
      [Render ''A'', Render ''B'', Deliver 1 (ok_stats [stat ''qwen'' 2 0 1 0])]) = ''B''
   \<and> fetches (monitor_run monitor_init
      [Render ''A'', Render ''B'', Deliver 1 (ok_stats [stat ''qwen'' 2 0 1 0])]) = [(0, ''A'')]
   \<and> stats (monitor_run monitor_init
      [Render ''A'', Render ''B'', Deliver 1 (ok_stats [stat ''qwen'' 2 0 1 0])])
       = [stat ''qwen'' 2 0 1 0]
   \<and> stats (monitor_run monitor_init
      [Render ''A'', Render ''B'', Deliver 1 (ok_stats [stat ''qwen'' 2 0 1 0]),
       Deliver 0 (ok_stats [stat ''deepseek'' 5 0 1 0])])
       = [stat ''deepseek'' 5 0 1 0]
   \<and> projectId (monitor_run monitor_init
      [Render ''A'', Render ''B'', Deliver 1 (ok_stats [stat ''qwen'' 2 0 1 0]),
       Deliver 0 (ok_stats [stat ''deepseek'' 5 0 1 0])]) = ''B''"
  by (simp add: monitor_defs ok_stats_def)

text \<open>
  C5, amended. After any run of events from the initial state: unmounting leaves no
  live timer, and a tick after it does nothing; at every moment at most one timer is
  live and its callback fetches for the current \<^verbatim>\<open>projectId\<close>, so a change of
  \<^verbatim>\<open>projectId\<close> cancels the old timer. Once the view is unmounted no arriving response
  changes the store (React drops the update). But no response is tagged or checked
  against the current project: while the view is mounted, a 2xx response to a request in
  flight replaces the store whatever the \<^verbatim>\<open>projectId\<close> its request was issued for.
\<close>

theorem C5_timer_cancelled_responses_unguarded:
  fixes es :: "monitor_event list"
  defines "m \<equiv> monitor_run monitor_init es"
  shows "intervals (monitor_step m Unmount) = []
       \<and> monitor_step (monitor_step m Unmount) (Tick h) = monitor_step m Unmount
       \<and> (\<forall>(k, p) \<in> set (intervals m). p = projectId m)
       \<and> length (intervals m) \<le> 1
       \<and> (phase m = Unmounted \<longrightarrow> stats (monitor_step m (Deliver seq r)) = stats m)
       \<and> (phase m = Mounted \<and> map_of (fetches m) seq = Some pid \<longrightarrow>
            stats (monitor_step m (Deliver seq (Response True (Some (JsonObject (Some xs))))))
              = xs)"
proof -
  have inv: "intervals m = (case cleanup m of None \<Rightarrow> [] | Some k \<Rightarrow> [(k, projectId m)])"
    and off: "phase m \<noteq> Mounted \<longrightarrow> cleanup m = None"
    using timer_invariant [of es] unfolding m_def by blast+
  have u: "intervals (monitor_step m Unmount) = []"
    using inv off by (cases "phase m") (auto simp add: run_cleanup_def split: option.splits)
  then have t: "monitor_step (monitor_step m Unmount) (Tick h) = monitor_step m Unmount"
    by simp
  have one: "(\<forall>(k, p) \<in> set (intervals m). p = projectId m) \<and> length (intervals m) \<le> 1"
    using inv by (auto split: option.splits)
  have gone: "stats (monitor_step m (Deliver seq r)) = stats m" if "phase m = Unmounted"
    using that
    by (auto simp add: loadConversationStats_resume_def setStats_def
        split: option.splits sum.splits)
  have stale: "stats (monitor_step m (Deliver seq (Response True (Some (JsonObject (Some xs))))))
              = xs" if "phase m = Mounted \<and> map_of (fetches m) seq = Some pid"
  proof -
    from that have a: "phase m = Mounted" and b: "map_of (fetches m) seq = Some pid" by blast+
    note e = deliver_ok [OF a b, of "Some xs"]
    show ?thesis unfolding e by simp
  qed
  from u t one gone stale show ?thesis by blast
qed

theorem C5_timer_cancelled_responses_unguarded_witness:
  "intervals (monitor_run monitor_init [Render ''A'', Render ''B'']) = [(2, ''B'')]
   \<and> intervals (monitor_run monitor_init [Render ''A'', Render ''B'', Unmount]) = []
   \<and> phase (monitor_run monitor_init [Render ''A'', Render ''B'', Unmount]) = Unmounted
   \<and> stats (monitor_run monitor_init
        [Render ''A'', Render ''B'', Unmount, Deliver 0 (ok_stats [stat ''deepseek'' 5 0 1 0])])
       = []
   \<and> phase (monitor_run monitor_init [Render ''A'', Render ''B'']) = Mounted
   \<and> map_of (fetches (monitor_run monitor_init [Render ''A'', Render ''B''])) 0 = Some ''A''
   \<and> stats (monitor_run monitor_init
        [Render ''A'', Render ''B'', Deliver 0 (ok_stats [stat ''deepseek'' 5 0 1 0])])
       = [stat ''deepseek'' 5 0 1 0]"
  using C5_timer_cancelled_responses_unguarded
      [of "[Render ''A'', Render ''B'']" 0 0 "ok_stats [stat ''deepseek'' 5 0 1 0]" "''A''"
          "[stat ''deepseek'' 5 0 1 0]"]
    C5_timer_cancelled_responses_unguarded
      [of "[Render ''A'', Render ''B'', Unmount]" 0 0 "ok_stats [stat ''deepseek'' 5 0 1 0]"
          "''A''" "[stat ''deepseek'' 5 0 1 0]"]
  by (simp add: monitor_defs ok_stats_def)

text \<open>
  C6, as stated: the active count of the aggregate view is the number of providers that
  are active and have messages. It fails: the overview counts the entries of the stats
  snapshot with \<^verbatim>\<open>total_messages > 0\<close>, and a stats entry has no \<^verbatim>\<open>active\<close> field. An
  inactive provider with messages is counted.
\<close>

theorem C6_inactive_provider_is_counted:
  "map_option activeModels (overview (map snd inactive_with_messages)) = Some 2
   \<and> spec_activeCount inactive_with_messages = 1
   \<and> map_option activeModels (overview (map snd inactive_with_messages))
       \<noteq> Some (spec_activeCount inactive_with_messages)"
  by (simp add: inactive_with_messages_def overview_def spec_activeCount_def stat_def)

lemma count_split:
  "length (filter (\<lambda>(a, s). total_messages s > 0) snapshot)
     = spec_activeCount snapshot
       + length (filter (\<lambda>(a, s). \<not> a \<and> total_messages s > 0) snapshot)"
  by (induction snapshot) (auto simp add: spec_activeCount_def)

lemma filter_map_snd:
  "length (filter P (map snd snapshot)) = length (filter (\<lambda>(a, s). P s) snapshot)"
  by (induction snapshot) auto

text \<open>
  C6, amended. With an empty snapshot no aggregate view is rendered. Otherwise its
  active count is the number of providers of the snapshot with \<^verbatim>\<open>total_messages > 0\<close>,
  whatever their active flag: the count of the specification plus the number of inactive
  providers that have messages. It is computed from the snapshot that the store holds at
  the render.
\<close>

theorem C6_active_count_ignores_active_flag:
  fixes snapshot :: spec_state
  shows "overview [] = None
       \<and> (snapshot \<noteq> [] \<longrightarrow>
            map_option activeModels (overview (map snd snapshot))
              = Some (length (filter (\<lambda>(a, s). total_messages s > 0) snapshot))
          \<and> map_option activeModels (overview (map snd snapshot))
              = Some (spec_activeCount snapshot
                      + length (filter (\<lambda>(a, s). \<not> a \<and> total_messages s > 0) snapshot)))
       \<and> (phase m = Mounted \<longrightarrow>
            overview (stats (setStats seq (map snd snapshot) m)) = overview (map snd snapshot))"
proof -
  have a: "map_option activeModels (overview (map snd snapshot))
              = Some (length (filter (\<lambda>(a, s). total_messages s > 0) snapshot))"
    if "snapshot \<noteq> []"
  proof -
    from that obtain x rest where c: "snapshot = x # rest" by (cases snapshot) auto
    have "map_option activeModels (overview (map snd snapshot))
            = Some (length (filter (\<lambda>s. total_messages s > 0) (map snd snapshot)))"
      unfolding c by (simp add: overview_def)
    then show ?thesis
      by (simp only: filter_map_snd [of "\<lambda>s. total_messages s > 0" snapshot])
  qed
  show ?thesis
    using a count_split [of snapshot] by (auto simp add: overview_def setStats_def)
qed

theorem C6_active_count_ignores_active_flag_witness:
  "inactive_with_messages \<noteq> []
   \<and> map_option activeModels (overview (map snd inactive_with_messages)) = Some 2
   \<and> spec_activeCount inactive_with_messages = 1
   \<and> length (filter (\<lambda>(a, s). \<not> a \<and> total_messages s > 0) inactive_with_messages) = 1
   \<and> phase holding_stats = Mounted
   \<and> map_option activeModels
       (overview (stats (setStats 1 (map snd inactive_with_messages) holding_stats))) = Some 2"
  using C6_active_count_ignores_active_flag [of inactive_with_messages holding_stats 1]
  by (simp add: inactive_with_messages_def spec_activeCount_def stat_def holding_stats_def
      monitor_defs ok_stats_def overview_def)

text \<open>
  C9, as stated: for every entry held in the store, \<^verbatim>\<open>usage_percentage\<close> equals
  \<^verbatim>\<open>estimated_tokens / context_window * 100\<close>. It fails: the client derives nothing. A
  response that reports 50 for 8000 tokens in a window of 10000 is stored with 50.
\<close>

theorem C9_reported_percentage_is_not_derived:
  "map usage_percentage (stats (monitor_run monitor_init
      [Render ''p1'', Deliver 0 (ok_stats [stat ''deepseek'' 5 8000 10000 50])])) = [50]
   \<and> map (\<lambda>s. real (estimated_tokens s) / real (context_window s) * 100)
       (stats (monitor_run monitor_init
          [Render ''p1'', Deliver 0 (ok_stats [stat ''deepseek'' 5 8000 10000 50])])) = [80]
   \<and> \<not> list_all (\<lambda>s. usage_percentage s
                        = real (estimated_tokens s) / real (context_window s) * 100)
       (stats (monitor_run monitor_init
          [Render ''p1'', Deliver 0 (ok_stats [stat ''deepseek'' 5 8000 10000 50])]))"
  by (simp add: monitor_defs ok_stats_def stat_def)

text \<open>
  C9, amended. The store holds the entries of a 2xx stats response as reported: the
  client neither derives \<^verbatim>\<open>usage_percentage\<close> from the token counts nor clamps it, so a
  reported value above 100 is retained, and the stored value equals
  \<^verbatim>\<open>estimated_tokens / context_window * 100\<close> whenever the service reported it so. The only
  clamp is in the display: the width of the progress bar is
  \<^verbatim>\<open>min(usage_percentage, 100)\<close>.
\<close>

theorem C9_store_keeps_reported_percentage:
  fixes m :: monitor and xs :: "ConversationStats list"
  assumes "phase m = Mounted" and "map_of (fetches m) seq = Some pid"
  defines "m' \<equiv> monitor_step m (Deliver seq (Response True (Some (JsonObject (Some xs)))))"
  shows "stats m' = xs
       \<and> map usage_percentage (stats m') = map usage_percentage xs
       \<and> (\<forall>s \<in> set (stats m').
            barWidth s = min (usage_percentage s) 100 \<and> barWidth s \<le> 100
            \<and> (usage_percentage s > 100 \<longrightarrow> barWidth s = 100 \<and> barWidth s < usage_percentage s))
       \<and> ((\<forall>s \<in> set xs. usage_percentage s
                = real (estimated_tokens s) / real (context_window s) * 100)
            \<longrightarrow> (\<forall>s \<in> set (stats m'). usage_percentage s
                = real (estimated_tokens s) / real (context_window s) * 100))"
proof -
  note e = deliver_ok [OF assms(1,2), of "Some xs"]
  have s: "stats m' = xs" unfolding m'_def e by simp
  show ?thesis unfolding s by (auto simp add: barWidth_def)
qed

theorem C9_store_keeps_reported_percentage_witness:
  "phase awaiting_stats = Mounted
   \<and> map_of (fetches awaiting_stats) 0 = Some ''p1''
   \<and> map usage_percentage (stats (monitor_step awaiting_stats
        (Deliver 0 (ok_stats [stat ''deepseek'' 5 8000 10000 80, stat ''qwen'' 9 12000 10000 120]))))
       = [80, 120]
   \<and> map barWidth (stats (monitor_step awaiting_stats
        (Deliver 0 (ok_stats [stat ''deepseek'' 5 8000 10000 80, stat ''qwen'' 9 12000 10000 120]))))
       = [80, 100]
   \<and> list_all (\<lambda>s. usage_percentage s = real (estimated_tokens s) / real (context_window s) * 100)
       (stats (monitor_step awaiting_stats
        (Deliver 0 (ok_stats [stat ''deepseek'' 5 8000 10000 80, stat ''qwen'' 9 12000 10000 120]))))"
proof -
  have p: "phase awaiting_stats = Mounted"
    by (simp add: awaiting_stats_def monitor_defs)
  have f: "map_of (fetches awaiting_stats) 0 = Some ''p1''"
    by (simp add: awaiting_stats_def monitor_defs)
  from C9_store_keeps_reported_percentage
         [OF p f, of "[stat ''deepseek'' 5 8000 10000 80, stat ''qwen'' 9 12000 10000 120]"] p f
  show ?thesis by (simp add: ok_stats_def stat_def barWidth_def)
qed

end
